theory Spec2Isabelle
  imports Complex_Main "HOL-Library.Word"
begin

section \<open>Numbers\<close>

text \<open>
  The tools compute with Python floats and ints. Floats are idealised as reals: the
  inputs are decimal literals and the operations are \<open>+ - * /\<close>, and the IEEE rounding
  of each operation is not modelled. Integers are Python's unbounded ints.

  \<^item> \<open>int(x)\<close> truncates toward zero.
  \<^item> \<open>round(x)\<close> (Python 3, one argument) rounds to the nearest integer, ties to even.
  \<^item> \<open>math.ceil(x)\<close> is the ceiling.
  \<^item> \<open>a // b\<close> on ints is floor division, which is \<open>div\<close> on \<open>int\<close>.
  \<^item> \<open>a / b\<close> raises \<open>ZeroDivisionError\<close> when \<open>b\<close> is zero.
\<close>

definition py_int :: "real \<Rightarrow> int" where
  "py_int x = (if 0 \<le> x then \<lfloor>x\<rfloor> else \<lceil>x\<rceil>)"

definition py_round :: "real \<Rightarrow> int" where
  "py_round x =
     (if x - of_int \<lfloor>x\<rfloor> < 1 / 2 then \<lfloor>x\<rfloor>
      else if 1 / 2 < x - of_int \<lfloor>x\<rfloor> then \<lfloor>x\<rfloor> + 1
      else if even \<lfloor>x\<rfloor> then \<lfloor>x\<rfloor> else \<lfloor>x\<rfloor> + 1)"


section \<open>Images (PIL mode L)\<close>

text \<open>
  A PIL image of mode \<open>L\<close> is a size and one 8-bit channel. The rows are stored top to
  bottom, each row left to right. An image is well formed when it has \<open>height\<close> rows of
  \<open>width\<close> pixels each.
\<close>

type_synonym pixel = "8 word"

record image =
  width :: nat
  height :: nat
  rows :: "pixel list list"

datatype error =
    IOError
  | ZeroDivisionError
  | ValueError
  | CellNotFound
  | NoGeometry int
  | EmptyCell

definition wf_image :: "image \<Rightarrow> bool" where
  "wf_image img =
     (length (rows img) = height img \<and> list_all (\<lambda>r. length r = width img) (rows img))"

definition getpixel :: "image \<Rightarrow> nat \<Rightarrow> nat \<Rightarrow> pixel" where
  "getpixel img x y = rows img ! y ! x"

text \<open>\<open>Image.new("L", (w, h), c)\<close>; PIL refuses a negative size.\<close>

definition Image_new :: "int \<Rightarrow> int \<Rightarrow> pixel \<Rightarrow> error + image" where
  "Image_new w h c =
     (if w < 0 \<or> h < 0 then Inl ValueError
      else Inr \<lparr>width = nat w, height = nat h,
                rows = replicate (nat h) (replicate (nat w) c)\<rparr>)"

text \<open>\<open>ImageOps.mirror\<close>: flip left to right.\<close>

definition mirror :: "image \<Rightarrow> image" where
  "mirror img = img\<lparr>rows := map rev (rows img)\<rparr>"

text \<open>\<open>ImageOps.invert\<close>: the lookup table \<open>255 - i\<close>.\<close>

definition invert :: "image \<Rightarrow> image" where
  "invert img = img\<lparr>rows := map (map (\<lambda>v. 255 - v)) (rows img)\<rparr>"

text \<open>\<open>img.point(lambda x: 255 if x >= thr else 0, mode='L')\<close>.\<close>

definition point_threshold :: "int \<Rightarrow> image \<Rightarrow> image" where
  "point_threshold thr img =
     img\<lparr>rows := map (map (\<lambda>v. if thr \<le> uint v then 255 else 0)) (rows img)\<rparr>"

text \<open>
  \<open>dst.paste(src, (ox, oy))\<close>: the pixels of \<open>src\<close> replace those of \<open>dst\<close> in the box
  whose top left corner is \<open>(ox, oy)\<close>; the part of the box outside \<open>dst\<close> is clipped.
\<close>

definition in_box :: "image \<Rightarrow> int \<times> int \<Rightarrow> nat \<Rightarrow> nat \<Rightarrow> bool" where
  "in_box src box x y =
     (fst box \<le> int x \<and> int x < fst box + int (width src) \<and>
      snd box \<le> int y \<and> int y < snd box + int (height src))"

definition source_pixel :: "image \<Rightarrow> int \<times> int \<Rightarrow> nat \<Rightarrow> nat \<Rightarrow> pixel" where
  "source_pixel src box x y = getpixel src (nat (int x - fst box)) (nat (int y - snd box))"

definition paste :: "image \<Rightarrow> image \<Rightarrow> int \<times> int \<Rightarrow> image" where
  "paste dst src box =
     dst\<lparr>rows :=
       map (\<lambda>(y, row).
         map (\<lambda>(x, v). if in_box src box x y then source_pixel src box x y else v)
           (enumerate 0 row))
         (enumerate 0 (rows dst))\<rparr>"

text \<open>
  \<open>img.resize((w, h), resample=LANCZOS)\<close>. The filter is PIL's; the model takes it as
  a parameter that gives the value of every pixel of the result. PIL returns a copy when
  the size does not change and refuses a size below one.
\<close>

type_synonym resampler = "image \<Rightarrow> nat \<Rightarrow> nat \<Rightarrow> nat \<Rightarrow> nat \<Rightarrow> pixel"

definition resize :: "resampler \<Rightarrow> image \<Rightarrow> int \<Rightarrow> int \<Rightarrow> error + image" where
  "resize rs img w h =
     (if int (width img) = w \<and> int (height img) = h then Inr img
      else if w < 1 \<or> h < 1 then Inl ValueError
      else Inr \<lparr>width = nat w, height = nat h,
                rows = map (\<lambda>y. map (\<lambda>x. rs img (nat w) (nat h) x y) [0..<nat w])
                         [0..<nat h]\<rparr>)"

section \<open>Gerber tool: the PCB canvas (gerber2lcdmask.py)\<close>

text \<open>The module's globals: the settings and the scalars derived from them.\<close>

record gerber_globals =
  DISPLAY_PIX_W :: int
  DISPLAY_PIX_H :: int
  DISPLAY_W_MM :: real
  DISPLAY_H_MM :: real
  PCB_W_MM :: real
  PCB_H_MM :: real
  PX_PER_MM_X :: real
  PX_PER_MM_Y :: real
  DRAW_W :: int
  DRAW_H :: int



text \<open>
  \<open>build_canvas\<close>, lines 93 to 102: the layer raster is resampled and pasted into a white
  canvas of the size of the PCB.
\<close>

definition layer_on_pcb ::
  "resampler \<Rightarrow> gerber_globals \<Rightarrow> image \<Rightarrow> real \<Rightarrow> real \<Rightarrow> real \<Rightarrow> real \<Rightarrow> error + image" where
  "layer_on_pcb rs g img min_x_mm max_y_mm w h =
     (case resize rs img (py_int (PX_PER_MM_X g * w)) (py_int (PX_PER_MM_Y g * h)) of
        Inl e \<Rightarrow> Inl e
      | Inr img' \<Rightarrow>
          (case Image_new (DRAW_W g) (DRAW_H g) 255 of
             Inl e \<Rightarrow> Inl e
           | Inr canvas_pcb \<Rightarrow>
               Inr (paste canvas_pcb img'
                     (py_round (min_x_mm * PX_PER_MM_X g),
                      py_round (- max_y_mm * PX_PER_MM_Y g)))))"

text \<open>Lines 104 to 107: the optional mirror, then the optional inversion.\<close>

definition mirror_invert :: "bool \<Rightarrow> bool \<Rightarrow> image \<Rightarrow> image" where
  "mirror_invert do_mirror do_invert canvas_pcb =
     (let c1 = (if do_mirror then mirror canvas_pcb else canvas_pcb)
      in if do_invert then invert c1 else c1)"

text \<open>\<open>build_canvas\<close>, whole: lines 109 to 115 centre the PCB canvas on a black display.\<close>

definition build_canvas ::
  "resampler \<Rightarrow> gerber_globals \<Rightarrow> image \<Rightarrow> bool \<Rightarrow> bool \<Rightarrow> real \<Rightarrow> real \<Rightarrow> real \<Rightarrow> real
     \<Rightarrow> error + image" where
  "build_canvas rs g img do_invert do_mirror min_x_mm max_y_mm w h =
     (case layer_on_pcb rs g img min_x_mm max_y_mm w h of
        Inl e \<Rightarrow> Inl e
      | Inr canvas_pcb \<Rightarrow>
          (case Image_new (DISPLAY_PIX_W g) (DISPLAY_PIX_H g) 0 of
             Inl e \<Rightarrow> Inl e
           | Inr canvas \<Rightarrow>
               Inr (paste canvas (mirror_invert do_mirror do_invert canvas_pcb)
                     ((DISPLAY_PIX_W g - DRAW_W g) div 2,
                      (DISPLAY_PIX_H g - DRAW_H g) div 2))))"



section \<open>Dual-circle tools: masked paste and the circle projection\<close>

text \<open>
  \<open>ImageDraw.Draw(mask).ellipse([0, 0, w, h], fill=255)\<close> on a mask of size \<open>(w, h)\<close>,
  and \<open>draw.polygon(pts, fill=255)\<close>. Which pixels PIL's rasteriser fills is PIL's
  business; the model takes the two fill rules as parameters. A drawing call only
  overwrites pixels with the fill colour.
\<close>

type_synonym ellipse_fill = "nat \<Rightarrow> nat \<Rightarrow> nat \<Rightarrow> nat \<Rightarrow> bool"

type_synonym polygon = "(real \<times> real) list"

type_synonym polygon_fill = "polygon \<Rightarrow> nat \<Rightarrow> nat \<Rightarrow> bool"

record pil =
  lanczos :: resampler
  ellipse :: ellipse_fill
  polygon_rule :: polygon_fill

definition draw_ellipse :: "ellipse_fill \<Rightarrow> image \<Rightarrow> image" where
  "draw_ellipse ell m =
     m\<lparr>rows :=
       map (\<lambda>(y, row).
         map (\<lambda>(x, v). if ell (width m) (height m) x y then 255 else v) (enumerate 0 row))
         (enumerate 0 (rows m))\<rparr>"

definition draw_polygon :: "polygon_fill \<Rightarrow> polygon \<Rightarrow> image \<Rightarrow> image" where
  "draw_polygon fill pts img =
     img\<lparr>rows :=
       map (\<lambda>(y, row). map (\<lambda>(x, v). if fill pts x y then 255 else v) (enumerate 0 row))
         (enumerate 0 (rows img))\<rparr>"

text \<open>The mask of both tools: a black image of the given size with the ellipse in white.\<close>

definition ellipse_mask :: "ellipse_fill \<Rightarrow> int \<Rightarrow> int \<Rightarrow> error + image" where
  "ellipse_mask ell w h =
     (case Image_new w h 0 of Inl e \<Rightarrow> Inl e | Inr m \<Rightarrow> Inr (draw_ellipse ell m))"

text \<open>
  \<open>dst.paste(src, (ox, oy), mask)\<close>: as \<open>paste\<close>, but only where the mask is 255; PIL
  refuses a mask whose size is not the source's. The masks of these tools hold 0 and 255
  only, so the blending of other mask values is not modelled.
\<close>

definition paste_mask :: "image \<Rightarrow> image \<Rightarrow> int \<times> int \<Rightarrow> image \<Rightarrow> error + image" where
  "paste_mask dst src box msk =
     (if width msk = width src \<and> height msk = height src
      then Inr (dst\<lparr>rows :=
        map (\<lambda>(y, row).
          map (\<lambda>(x, v).
                 if in_box src box x y \<and> source_pixel msk box x y = 255
                 then source_pixel src box x y else v)
            (enumerate 0 row))
          (enumerate 0 (rows dst))\<rparr>)
      else Inl ValueError)"

text \<open>\<open>img.crop((x0, y0, x1, y1))\<close>, for a box inside the image.\<close>

definition crop :: "image \<Rightarrow> nat \<Rightarrow> nat \<Rightarrow> nat \<Rightarrow> nat \<Rightarrow> image" where
  "crop img x0 y0 x1 y1 =
     \<lparr>width = x1 - x0, height = y1 - y0,
      rows = map (\<lambda>r. take (x1 - x0) (drop x0 r)) (take (y1 - y0) (drop y0 (rows img)))\<rparr>"

text \<open>Lines 147 to 150 of bitmap2lcdmask.py: the centred square.\<close>

definition center_square :: "image \<Rightarrow> image" where
  "center_square content_img =
     (let min_side = min (width content_img) (height content_img);
          left = (width content_img - min_side) div 2;
          upper = (height content_img - min_side) div 2
      in crop content_img left upper (left + min_side) (upper + min_side))"

text \<open>
  \<open>place_in_circle\<close> of bitmap2lcdmask.py. The content is taken after \<open>convert("L")\<close>,
  that is, as a grayscale image.
\<close>

definition place_in_circle ::
  "pil \<Rightarrow> image \<Rightarrow> image \<Rightarrow> int \<times> int \<Rightarrow> int \<Rightarrow> int \<Rightarrow> int option \<Rightarrow> bool \<Rightarrow> error + image" where
  "place_in_circle p base_img content_img center radius_px_x radius_px_y threshold do_invert =
     (let c1 = (case threshold of None \<Rightarrow> content_img
                | Some thr \<Rightarrow> point_threshold thr content_img);
          c2 = (if do_invert then invert c1 else c1);
          content_cropped = center_square c2
      in case resize (lanczos p) content_cropped (2 * radius_px_x) (2 * radius_px_y) of
           Inl e \<Rightarrow> Inl e
         | Inr scaled \<Rightarrow>
             (case ellipse_mask (ellipse p) (2 * radius_px_x) (2 * radius_px_y) of
                Inl e \<Rightarrow> Inl e
              | Inr msk \<Rightarrow>
                  paste_mask base_img scaled
                    (fst center - radius_px_x, snd center - radius_px_y) msk))"

section \<open>Bitmap tool (bitmap2lcdmask.py)\<close>



text \<open>
  Lines 81 to 91 of \<open>render_bitmap_to_photomask\<close>: the scale, the radii and the two
  centres.
\<close>

record circle_geometry =
  radius_px_x :: int
  radius_px_y :: int
  center_y :: int
  left_center_x :: int
  right_center_x :: int

definition circle_layout ::
  "int \<Rightarrow> int \<Rightarrow> real \<Rightarrow> real \<Rightarrow> real \<Rightarrow> real \<Rightarrow> error + circle_geometry" where
  "circle_layout W_px H_px screen_width_mm screen_height_mm circle_diam_mm circle_offset_mm =
     (if screen_width_mm = 0 then Inl ZeroDivisionError
      else if screen_height_mm = 0 then Inl ZeroDivisionError
      else
        (let px_per_mm_x = of_int W_px / screen_width_mm;
             px_per_mm_y = of_int H_px / screen_height_mm;
             radius_mm = circle_diam_mm / 2
         in Inr \<lparr>radius_px_x = py_int (radius_mm * px_per_mm_x),
                  radius_px_y = py_int (radius_mm * px_per_mm_y),
                  center_y = H_px div 2,
                  left_center_x = py_int (circle_offset_mm * px_per_mm_x),
                  right_center_x =
                    py_int ((screen_width_mm - circle_offset_mm) * px_per_mm_x)\<rparr>))"

text \<open>
  Lines 81 to 119: the canvas with both circles, before the final mirror. The input file
  is \<open>None\<close> when \<open>Image.open\<close> cannot read it.
\<close>

definition bitmap_two_circles ::
  "pil \<Rightarrow> image option \<Rightarrow> int option \<Rightarrow> int \<Rightarrow> int \<Rightarrow> real \<Rightarrow> real \<Rightarrow> real \<Rightarrow> real
     \<Rightarrow> error + image" where
  "bitmap_two_circles p input_file threshold W_px H_px screen_width_mm screen_height_mm
       circle_diam_mm circle_offset_mm =
     (case circle_layout W_px H_px screen_width_mm screen_height_mm
             circle_diam_mm circle_offset_mm of
        Inl e \<Rightarrow> Inl e
      | Inr geo \<Rightarrow>
          (case Image_new W_px H_px 0 of
             Inl e \<Rightarrow> Inl e
           | Inr base \<Rightarrow>
               (case input_file of
                  None \<Rightarrow> Inl IOError
                | Some img \<Rightarrow>
                    (case place_in_circle p base img (left_center_x geo, center_y geo)
                            (radius_px_x geo) (radius_px_y geo) threshold False of
                       Inl e \<Rightarrow> Inl e
                     | Inr base1 \<Rightarrow>
                         place_in_circle p base1 img (right_center_x geo, center_y geo)
                           (radius_px_x geo) (radius_px_y geo) threshold True))))"

text \<open>\<open>render_bitmap_to_photomask\<close>: lines 121 to 124 mirror the canvas and return it.\<close>

definition render_bitmap_to_photomask ::
  "pil \<Rightarrow> image option \<Rightarrow> int option \<Rightarrow> int \<Rightarrow> int \<Rightarrow> real \<Rightarrow> real \<Rightarrow> real \<Rightarrow> real
     \<Rightarrow> error + image" where
  "render_bitmap_to_photomask p input_file threshold W_px H_px screen_width_mm
       screen_height_mm circle_diam_mm circle_offset_mm =
     (case bitmap_two_circles p input_file threshold W_px H_px screen_width_mm
             screen_height_mm circle_diam_mm circle_offset_mm of
        Inl e \<Rightarrow> Inl e
      | Inr base \<Rightarrow> Inr (mirror base))"

section \<open>GDS tool (gds2lcdmask.py)\<close>

text \<open>
  gdspy is outside the repository. A cell is whatever the engine works on; the model
  takes the three calls the tool makes on a cell as parameters. The library is the
  dictionary \<open>lib.cells\<close>. Following section 4.4 of the specification and the guards of
  the source (\<open>if temp_name in lib.cells: del lib.cells[temp_name]\<close>), the flattened copy
  is held in the library under its temporary name until it is deleted. The model starts
  when line 79 has loaded the library.
\<close>

record 'c gdspy =
  flatten :: "'c \<Rightarrow> 'c"
  get_polygons :: "'c \<Rightarrow> int \<times> int \<Rightarrow> polygon list option"
  get_bounding_box :: "'c \<Rightarrow> ((real \<times> real) \<times> (real \<times> real)) option"

type_synonym 'c library = "string \<Rightarrow> 'c option"

text \<open>Lines 180 to 186 of \<open>paste_circle\<close>: the centre of the circle on the x axis.\<close>

definition circle_center_x :: "image \<Rightarrow> real \<Rightarrow> string \<Rightarrow> real \<Rightarrow> error + int" where
  "circle_center_x base px_mm_x pos offset_mm =
     (if pos = ''left'' then Inr (py_int (offset_mm * px_mm_x))
      else if px_mm_x = 0 then Inl ZeroDivisionError
      else Inr (py_int ((of_nat (width base) / px_mm_x - offset_mm) * px_mm_x)))"

definition paste_circle ::
  "pil \<Rightarrow> image \<Rightarrow> image \<Rightarrow> int \<Rightarrow> int \<Rightarrow> real \<Rightarrow> real \<Rightarrow> string \<Rightarrow> real \<Rightarrow> bool
     \<Rightarrow> error + image" where
  "paste_circle p base img rx ry px_mm_x px_mm_y pos offset_mm do_invert =
     (let img1 = (if do_invert then invert img else img);
          cy = int (height base) div 2
      in case circle_center_x base px_mm_x pos offset_mm of
           Inl e \<Rightarrow> Inl e
         | Inr cx \<Rightarrow>
             (case ellipse_mask (ellipse p) (int (width img1)) (int (height img1)) of
                Inl e \<Rightarrow> Inl e
              | Inr msk \<Rightarrow> paste_mask base img1 (cx - rx, cy - ry) msk))"

definition temp_cell_name :: "string \<Rightarrow> string" where
  "temp_cell_name uuid_hex = ''__temp_flat__'' @ uuid_hex"

text \<open>Lines 128 to 134: every polygon of the layer, moved to raster coordinates, filled.\<close>

definition to_raster ::
  "real \<Rightarrow> real \<Rightarrow> real \<Rightarrow> real \<Rightarrow> int \<Rightarrow> int \<Rightarrow> polygon \<Rightarrow> polygon" where
  "to_raster cx_um cy_um scale_um_to_px_x scale_um_to_px_y rx ry poly =
     map (\<lambda>(x, y). ((x - cx_um) * scale_um_to_px_x + of_int rx,
                     (cy_um - y) * scale_um_to_px_y + of_int ry)) poly"

text \<open>
  Lines 80 to 163 of \<open>render_gds_to_photomask\<close>: the result so far and the library as it
  is when the function raises or reaches line 165.
\<close>

definition gds_two_circles ::
  "'c gdspy \<Rightarrow> pil \<Rightarrow> 'c library \<Rightarrow> string \<Rightarrow> string \<Rightarrow> int \<Rightarrow> int \<Rightarrow> int \<Rightarrow> real \<Rightarrow> real
     \<Rightarrow> real \<Rightarrow> real \<Rightarrow> (error + image) \<times> 'c library" where
  "gds_two_circles eng p lib uuid_hex cell_name layer W_px H_px screen_width_mm
       screen_height_mm circle_diam_mm circle_offset_mm =
     (case lib cell_name of
        None \<Rightarrow> (Inl CellNotFound, lib)
      | Some original_cell \<Rightarrow>
          (let temp_name = temp_cell_name uuid_hex;
               flat_cell = flatten eng original_cell;
               lib1 = lib(temp_name \<mapsto> flat_cell);
               polys = (case get_polygons eng flat_cell (layer, 0) of
                          None \<Rightarrow> [] | Some ps \<Rightarrow> ps)
           in if polys = [] then (Inl (NoGeometry layer), lib1(temp_name := None))
              else if screen_width_mm = 0 then (Inl ZeroDivisionError, lib1)
              else if screen_height_mm = 0 then (Inl ZeroDivisionError, lib1)
              else
                (let px_per_mm_x = of_int W_px / screen_width_mm;
                     px_per_mm_y = of_int H_px / screen_height_mm;
                     radius_mm = circle_diam_mm / 2;
                     rx = py_int (radius_mm * px_per_mm_x);
                     ry = py_int (radius_mm * px_per_mm_y);
                     scale_um_to_px_x = px_per_mm_x / 1000;
                     scale_um_to_px_y = px_per_mm_y / 1000
                 in case get_bounding_box eng flat_cell of
                      None \<Rightarrow> (Inl EmptyCell, lib1(temp_name := None))
                    | Some bbox \<Rightarrow>
                        (let cx_um = (fst (fst bbox) + fst (snd bbox)) / 2;
                             cy_um = (snd (fst bbox) + snd (snd bbox)) / 2
                         in case Image_new (2 * rx) (2 * ry) 0 of
                              Inl e \<Rightarrow> (Inl e, lib1)
                            | Inr blank \<Rightarrow>
                                (let gds_img =
                                       fold (\<lambda>poly. draw_polygon (polygon_rule p)
                                               (to_raster cx_um cy_um scale_um_to_px_x
                                                  scale_um_to_px_y rx ry poly))
                                         polys blank
                                 in case Image_new W_px H_px 0 of
                                      Inl e \<Rightarrow> (Inl e, lib1)
                                    | Inr base \<Rightarrow>
                                        (case paste_circle p base gds_img rx ry px_per_mm_x
                                                px_per_mm_y ''left'' circle_offset_mm False of
                                           Inl e \<Rightarrow> (Inl e, lib1)
                                         | Inr base1 \<Rightarrow>
                                             (paste_circle p base1 gds_img rx ry px_per_mm_x
                                                px_per_mm_y ''right'' circle_offset_mm True,
                                              lib1)))))))"

text \<open>
  \<open>render_gds_to_photomask\<close>: lines 165 to 172 mirror the canvas, delete the temporary
  cell and return.
\<close>

definition render_gds_to_photomask ::
  "'c gdspy \<Rightarrow> pil \<Rightarrow> 'c library \<Rightarrow> string \<Rightarrow> string \<Rightarrow> int \<Rightarrow> int \<Rightarrow> int \<Rightarrow> real \<Rightarrow> real
     \<Rightarrow> real \<Rightarrow> real \<Rightarrow> (error + image) \<times> 'c library" where
  "render_gds_to_photomask eng p lib uuid_hex cell_name layer W_px H_px screen_width_mm
       screen_height_mm circle_diam_mm circle_offset_mm =
     (case gds_two_circles eng p lib uuid_hex cell_name layer W_px H_px screen_width_mm
             screen_height_mm circle_diam_mm circle_offset_mm of
        (Inl e, lib') \<Rightarrow> (Inl e, lib')
      | (Inr base, lib') \<Rightarrow> (Inr (mirror base), lib'((temp_cell_name uuid_hex) := None)))"

section \<open>Concrete inputs\<close>


definition nearest :: resampler where
  "nearest img w h x y = getpixel img (x * width img div w) (y * height img div h)"

definition tiny_settings :: gerber_globals where
  "tiny_settings =
     \<lparr>DISPLAY_PIX_W = 4, DISPLAY_PIX_H = 2, DISPLAY_W_MM = 3, DISPLAY_H_MM = 2,
      PCB_W_MM = 1, PCB_H_MM = 1,
      PX_PER_MM_X = 0, PX_PER_MM_Y = 0, DRAW_W = 0, DRAW_H = 0\<rparr>"

definition tiny_globals :: gerber_globals where
  "tiny_globals =
     tiny_settings\<lparr>PX_PER_MM_X := 4 / 3, PX_PER_MM_Y := 1, DRAW_W := 2, DRAW_H := 1\<rparr>"

definition dot :: image where
  "dot = \<lparr>width = 1, height = 1, rows = [[7]]\<rparr>"

definition tiny_canvas :: image where
  "tiny_canvas = \<lparr>width = 4, height = 2, rows = [[0, 7, 255, 0], [0, 0, 0, 0]]\<rparr>"

text \<open>
  Stand-ins for PIL and gdspy, and small inputs for the dual-circle tools: a display of
  8 by 4 pixels on 8 by 4 mm, a 3 by 2 bitmap, and a library with one cell that has one
  triangle on layer 1. The ellipse rule fills all but the corners of the mask; the polygon
  rule fills the pixels of the vertices.
\<close>

definition test_pil :: pil where
  "test_pil =
     \<lparr>lanczos = nearest,
      ellipse = (\<lambda>w h x y. \<not> ((x = 0 \<or> x + 1 = w) \<and> (y = 0 \<or> y + 1 = h))),
      polygon_rule = (\<lambda>pts x y. list_ex (\<lambda>(px, py). \<lfloor>px\<rfloor> = int x \<and> \<lfloor>py\<rfloor> = int y) pts)\<rparr>"

definition checker :: image where
  "checker = \<lparr>width = 3, height = 2, rows = [[10, 200, 30], [20, 10, 250]]\<rparr>"

type_synonym test_cell = "((int \<times> int) \<times> polygon list) list"

definition test_engine :: "test_cell gdspy" where
  "test_engine =
     \<lparr>flatten = (\<lambda>c. c),
      get_polygons = map_of,
      get_bounding_box = (\<lambda>c. if c = [] then None else Some ((0, 0), (4000, 4000)))\<rparr>"

definition test_lib :: "test_cell library" where
  "test_lib = map_of [(''TOP'', [((1, 0), [[(0, 0), (3000, 0), (3000, 3000)]])])]"


definition bitmap_out :: image where
  "bitmap_out =
     \<lparr>width = 8, height = 4,
      rows = [[0, 0, 255, 0, 0, 255, 0, 0], [0, 0, 255, 255, 255, 255, 0, 0],
              [255, 255, 255, 255, 0, 0, 0, 0], [0, 255, 255, 0, 0, 0, 0, 0]]\<rparr>"

definition gds_out :: image where
  "gds_out =
     \<lparr>width = 8, height = 4,
      rows = [[0, 255, 255, 0, 0, 0, 0, 0], [0, 255, 255, 255, 255, 0, 0, 0],
              [255, 255, 255, 255, 0, 0, 0, 0], [0, 255, 255, 0, 0, 0, 0, 0]]\<rparr>"



section \<open>Facts about images\<close>

lemma wf_Image_new: "Image_new w h c = Inr img \<Longrightarrow> wf_image img"
  by (auto simp: Image_new_def wf_image_def list_all_iff split: if_splits)

lemma size_Image_new:
  "Image_new w h c = Inr img \<Longrightarrow> int (width img) = w \<and> int (height img) = h"
  by (auto simp: Image_new_def split: if_splits)

lemma width_paste: "width (paste dst src box) = width dst"
  by (simp add: paste_def)

lemma height_paste: "height (paste dst src box) = height dst"
  by (simp add: paste_def)

lemma wf_paste: "wf_image dst \<Longrightarrow> wf_image (paste dst src box)"
  by (auto simp: paste_def wf_image_def list_all_iff enumerate_eq_zip dest: set_zip_rightD)

lemma getpixel_paste:
  assumes "wf_image dst" "x < width dst" "y < height dst"
  shows "getpixel (paste dst src box) x y =
           (if in_box src box x y then source_pixel src box x y else getpixel dst x y)"
proof -
  from assms have y: "y < length (rows dst)"
    by (simp add: wf_image_def)
  with assms have x: "x < length (rows dst ! y)"
    by (simp add: wf_image_def list_all_length)
  show ?thesis
    using x y by (simp add: getpixel_def paste_def nth_enumerate_eq)
qed

lemma getpixel_Image_new:
  "Image_new w h c = Inr img \<Longrightarrow> x < width img \<Longrightarrow> y < height img \<Longrightarrow> getpixel img x y = c"
  by (auto simp: Image_new_def getpixel_def split: if_splits)

lemma size_mirror_invert:
  "width (mirror_invert m i img) = width img \<and>
   height (mirror_invert m i img) = height img"
  by (simp add: mirror_invert_def mirror_def invert_def Let_def)

lemma size_layer_on_pcb:
  "layer_on_pcb rs g img min_x max_y w h = Inr sub \<Longrightarrow>
     int (width sub) = DRAW_W g \<and> int (height sub) = DRAW_H g"
  by (auto simp: layer_on_pcb_def width_paste height_paste
           dest: size_Image_new split: sum.splits)

section \<open>Threshold and mirror\<close>

lemma uint_pixel_le: "uint (v :: pixel) \<le> 255"
  using uint_bounded [of v] by simp

lemma threshold_pixel_idem:
  "(if thr \<le> uint (if thr \<le> uint (v :: pixel) then 255 else 0 :: pixel) then 255 else 0 :: pixel) =
   (if thr \<le> uint v then 255 else 0)"
proof (cases "thr \<le> uint v")
  case True
  with uint_pixel_le [of v] show ?thesis by simp
next
  case False
  then have "0 < thr" using uint_ge_0 [of v] by linarith
  with False show ?thesis by simp
qed

text \<open>
  Claim C8. The binarisation of \<open>place_in_circle\<close> (255 where the intensity is at least
  the threshold, 0 elsewhere) is idempotent: applying it twice with the same threshold
  gives the image that applying it once gives. This holds for every image and every
  integer threshold, so in particular for the thresholds 0 to 254 the tools offer.
\<close>

theorem threshold_idempotent:
  "point_threshold thr (point_threshold thr img) = point_threshold thr img"
  by (simp add: point_threshold_def threshold_pixel_idem o_def)



section \<open>Gerber tool: placement on the PCB canvas and the display\<close>



lemma build_tiny:
  "build_canvas nearest tiny_globals dot False False 0 0 (3 / 4) 1 = Inr tiny_canvas"
  by code_simp

lemma build_canvas_InrD:
  assumes "build_canvas rs g img do_invert do_mirror min_x_mm max_y_mm w h = Inr out"
  obtains sub canvas where
    "layer_on_pcb rs g img min_x_mm max_y_mm w h = Inr sub"
    "Image_new (DISPLAY_PIX_W g) (DISPLAY_PIX_H g) 0 = Inr canvas"
    "out = paste canvas (mirror_invert do_mirror do_invert sub)
             ((DISPLAY_PIX_W g - DRAW_W g) div 2, (DISPLAY_PIX_H g - DRAW_H g) div 2)"
  using assms by (auto simp: build_canvas_def split: sum.splits)


text \<open>
  Claim C10. In \<open>build_canvas\<close> the mirror and the inversion act on the PCB canvas only,
  before it is pasted. So on every successful run, whatever the two flags, every pixel of
  the display canvas outside the centred rectangle of the PCB canvas is 0 (black).
\<close>

theorem outside_pcb_black:
  assumes "build_canvas rs g img do_invert do_mirror min_x_mm max_y_mm w h = Inr out"
    and "int x < DISPLAY_PIX_W g" and "int y < DISPLAY_PIX_H g"
    and "\<not> ((DISPLAY_PIX_W g - DRAW_W g) div 2 \<le> int x \<and>
             int x < (DISPLAY_PIX_W g - DRAW_W g) div 2 + DRAW_W g \<and>
             (DISPLAY_PIX_H g - DRAW_H g) div 2 \<le> int y \<and>
             int y < (DISPLAY_PIX_H g - DRAW_H g) div 2 + DRAW_H g)"
  shows "getpixel out x y = 0"
proof -
  from assms(1) obtain sub canvas where
    sub: "layer_on_pcb rs g img min_x_mm max_y_mm w h = Inr sub" and
    canvas: "Image_new (DISPLAY_PIX_W g) (DISPLAY_PIX_H g) 0 = Inr canvas" and
    out: "out = paste canvas (mirror_invert do_mirror do_invert sub)
             ((DISPLAY_PIX_W g - DRAW_W g) div 2, (DISPLAY_PIX_H g - DRAW_H g) div 2)"
    by (rule build_canvas_InrD)
  from canvas assms(2,3) have xy: "x < width canvas" "y < height canvas"
    using size_Image_new [OF canvas] by linarith+
  from sub have "int (width sub) = DRAW_W g" "int (height sub) = DRAW_H g"
    by (simp_all add: size_layer_on_pcb)
  with assms(4) have "\<not> in_box (mirror_invert do_mirror do_invert sub)
      ((DISPLAY_PIX_W g - DRAW_W g) div 2, (DISPLAY_PIX_H g - DRAW_H g) div 2) x y"
    by (simp add: in_box_def size_mirror_invert)
  with xy canvas show ?thesis
    by (simp add: out getpixel_paste wf_Image_new getpixel_Image_new)
qed

text \<open>The small display: the pixel at (3, 1) lies right of the PCB rectangle and is black.\<close>

theorem outside_pcb_black_witness:
  "build_canvas nearest tiny_globals dot False False 0 0 (3 / 4) 1 = Inr tiny_canvas \<and>
   int 3 < DISPLAY_PIX_W tiny_globals \<and> int 1 < DISPLAY_PIX_H tiny_globals \<and>
   (DISPLAY_PIX_W tiny_globals - DRAW_W tiny_globals) div 2 + DRAW_W tiny_globals \<le> int 3 \<and>
   getpixel tiny_canvas 3 1 = 0"
  using outside_pcb_black [of nearest tiny_globals dot False False 0 0 "3 / 4" 1 tiny_canvas 3 1]
    build_tiny
  by (simp add: tiny_globals_def tiny_settings_def)









section \<open>Dual-circle tools: output size and circle centres\<close>

lemma width_mirror: "width (mirror img) = width img"
  by (simp add: mirror_def)

lemma height_mirror: "height (mirror img) = height img"
  by (simp add: mirror_def)

lemma wf_mirror: "wf_image img \<Longrightarrow> wf_image (mirror img)"
  by (simp add: mirror_def wf_image_def list_all_iff)

lemma wf_invert: "wf_image img \<Longrightarrow> wf_image (invert img)"
  by (simp add: invert_def wf_image_def list_all_iff)

lemma wf_mirror_invert: "wf_image img \<Longrightarrow> wf_image (mirror_invert m i img)"
  by (simp add: mirror_invert_def Let_def wf_mirror wf_invert)

lemma paste_mask_size:
  "paste_mask dst src box msk = Inr r \<Longrightarrow> width r = width dst \<and> height r = height dst"
  by (auto simp: paste_mask_def split: if_splits)

lemma paste_mask_wf:
  "paste_mask dst src box msk = Inr r \<Longrightarrow> wf_image dst \<Longrightarrow> wf_image r"
  by (auto simp: paste_mask_def wf_image_def list_all_length nth_enumerate_eq
           split: if_splits)

lemma paste_mask_shape:
  assumes "paste_mask dst src box msk = Inr r"
  shows "width r = width dst" "height r = height dst" "wf_image dst \<Longrightarrow> wf_image r"
  using assms paste_mask_size [OF assms] paste_mask_wf [OF assms] by simp_all

lemma place_in_circle_shape:
  assumes "place_in_circle p base img c rx ry thr iv = Inr r"
  shows "width r = width base" "height r = height base" "wf_image base \<Longrightarrow> wf_image r"
  using assms
  by (auto simp: place_in_circle_def Let_def split: sum.splits dest: paste_mask_shape)

lemma paste_circle_shape:
  assumes "paste_circle p base img rx ry ppx ppy pos off iv = Inr r"
  shows "width r = width base" "height r = height base" "wf_image base \<Longrightarrow> wf_image r"
  using assms
  by (auto simp: paste_circle_def Let_def split: sum.splits dest: paste_mask_shape)

lemma bitmap_two_circles_shape:
  assumes "bitmap_two_circles p f thr W_px H_px sw sh d off = Inr r"
  shows "int (width r) = W_px \<and> int (height r) = H_px \<and> wf_image r"
proof -
  from assms obtain c1 c2 rx ry base img base1 where
    base: "Image_new W_px H_px 0 = Inr base" and
    b1: "place_in_circle p base img c1 rx ry thr False = Inr base1" and
    r: "place_in_circle p base1 img c2 rx ry thr True = Inr r"
    by (auto simp: bitmap_two_circles_def split: sum.splits option.splits)
  from base have "int (width base) = W_px" "int (height base) = H_px" "wf_image base"
    by (simp_all add: size_Image_new wf_Image_new)
  with place_in_circle_shape [OF b1] place_in_circle_shape [OF r] show ?thesis
    by simp
qed

lemma gds_two_circles_shape:
  assumes "fst (gds_two_circles eng p lib u c l W_px H_px sw sh d off) = Inr r"
  shows "int (width r) = W_px \<and> int (height r) = H_px \<and> wf_image r"
proof -
  from assms obtain base base1 gds_img rx ry ppx ppy where
    base: "Image_new W_px H_px 0 = Inr base" and
    b1: "paste_circle p base gds_img rx ry ppx ppy ''left'' off False = Inr base1" and
    r: "paste_circle p base1 gds_img rx ry ppx ppy ''right'' off True = Inr r"
    by (auto simp: gds_two_circles_def Let_def split: sum.splits option.splits if_splits)
  from base have "int (width base) = W_px" "int (height base) = H_px" "wf_image base"
    by (simp_all add: size_Image_new wf_Image_new)
  with paste_circle_shape [OF b1] paste_circle_shape [OF r] show ?thesis
    by simp
qed

lemma build_canvas_shape:
  assumes "build_canvas rs g img i m minx maxy w h = Inr r"
  shows "int (width r) = DISPLAY_PIX_W g \<and> int (height r) = DISPLAY_PIX_H g \<and> wf_image r"
proof -
  from assms obtain sub canvas where
    "layer_on_pcb rs g img minx maxy w h = Inr sub" and
    canvas: "Image_new (DISPLAY_PIX_W g) (DISPLAY_PIX_H g) 0 = Inr canvas" and
    r: "r = paste canvas (mirror_invert m i sub)
             ((DISPLAY_PIX_W g - DRAW_W g) div 2, (DISPLAY_PIX_H g - DRAW_H g) div 2)"
    by (rule build_canvas_InrD)
  from canvas have "int (width canvas) = DISPLAY_PIX_W g" "int (height canvas) = DISPLAY_PIX_H g"
    "wf_image canvas"
    by (simp_all add: size_Image_new wf_Image_new)
  then show ?thesis
    by (simp add: r width_paste height_paste wf_paste)
qed

text \<open>
  Claim C9. Every successful render of the three tools returns an image of mode L (one
  channel of 8-bit pixels, the type \<open>image\<close>) whose size is exactly the pixel width and
  height of the display, with that many rows and columns of pixels, whatever the size of
  the source and whatever the circle or PCB values.
\<close>

theorem output_size:
  "(render_bitmap_to_photomask p f thr W_px H_px sw sh d off = Inr out1 \<longrightarrow>
      int (width out1) = W_px \<and> int (height out1) = H_px \<and> wf_image out1) \<and>
   (fst (render_gds_to_photomask eng p lib u c l W_px H_px sw sh d off) = Inr out2 \<longrightarrow>
      int (width out2) = W_px \<and> int (height out2) = H_px \<and> wf_image out2) \<and>
   (build_canvas rs g img i m minx maxy w h = Inr out3 \<longrightarrow>
      int (width out3) = DISPLAY_PIX_W g \<and> int (height out3) = DISPLAY_PIX_H g \<and>
      wf_image out3)"
proof (intro conjI impI)
  assume "render_bitmap_to_photomask p f thr W_px H_px sw sh d off = Inr out1"
  then obtain r where "bitmap_two_circles p f thr W_px H_px sw sh d off = Inr r"
    and "out1 = mirror r"
    by (auto simp: render_bitmap_to_photomask_def split: sum.splits)
  with bitmap_two_circles_shape [of p f thr W_px H_px sw sh d off r]
  show "int (width out1) = W_px" "int (height out1) = H_px" "wf_image out1"
    by (simp_all add: width_mirror height_mirror wf_mirror)
next
  assume "fst (render_gds_to_photomask eng p lib u c l W_px H_px sw sh d off) = Inr out2"
  then obtain r where "fst (gds_two_circles eng p lib u c l W_px H_px sw sh d off) = Inr r"
    and "out2 = mirror r"
    by (auto simp: render_gds_to_photomask_def split: sum.splits prod.splits)
  with gds_two_circles_shape [of eng p lib u c l W_px H_px sw sh d off r]
  show "int (width out2) = W_px" "int (height out2) = H_px" "wf_image out2"
    by (simp_all add: width_mirror height_mirror wf_mirror)
next
  assume "build_canvas rs g img i m minx maxy w h = Inr out3"
  from build_canvas_shape [OF this]
  show "int (width out3) = DISPLAY_PIX_W g" "int (height out3) = DISPLAY_PIX_H g"
    "wf_image out3"
    by simp_all
qed

lemma bitmap_run:
  "render_bitmap_to_photomask test_pil (Some checker) (Some 128) 8 4 8 4 4 2 = Inr bitmap_out"
  by code_simp

lemma gds_run:
  "fst (render_gds_to_photomask test_engine test_pil test_lib ''ab12'' ''TOP'' 1 8 4 8 4 4 2)
     = Inr gds_out"
  by code_simp

text \<open>The three tools run on the small inputs.\<close>

theorem output_size_witness:
  "render_bitmap_to_photomask test_pil (Some checker) (Some 128) 8 4 8 4 4 2 = Inr bitmap_out \<and>
   int (width bitmap_out) = 8 \<and> int (height bitmap_out) = 4 \<and> wf_image bitmap_out \<and>
   fst (render_gds_to_photomask test_engine test_pil test_lib ''ab12'' ''TOP'' 1 8 4 8 4 4 2)
     = Inr gds_out \<and>
   int (width gds_out) = 8 \<and> int (height gds_out) = 4 \<and> wf_image gds_out \<and>
   build_canvas nearest tiny_globals dot False False 0 0 (3 / 4) 1 = Inr tiny_canvas \<and>
   int (width tiny_canvas) = DISPLAY_PIX_W tiny_globals \<and>
   int (height tiny_canvas) = DISPLAY_PIX_H tiny_globals \<and> wf_image tiny_canvas"
  using output_size [of test_pil "Some checker" "Some 128" 8 4 8 4 4 2 bitmap_out
      test_engine test_lib "''ab12''" "''TOP''" 1 gds_out
      nearest tiny_globals dot False False 0 0 "3 / 4" 1 tiny_canvas]
    bitmap_run gds_run build_tiny
  by simp

lemma py_int_nonneg: "0 \<le> v \<Longrightarrow> py_int v = \<lfloor>v\<rfloor>"
  by (simp add: py_int_def)

lemma py_round_near_floor: "\<lfloor>v\<rfloor> \<le> py_round v \<and> py_round v \<le> \<lfloor>v\<rfloor> + 1"
  by (simp add: py_round_def)






section \<open>GDS tool: empty layers and the temporary cell\<close>

text \<open>
  Claim C6. When the named cell is in the library and its flattened copy has no polygon
  with layer number \<open>layer\<close> and datatype 0, \<open>render_gds_to_photomask\<close> raises the
  "no geometry on layer" error; it does not return a canvas.
\<close>

theorem empty_layer_fails:
  assumes "lib cell_name = Some cell"
    and "(case get_polygons eng (flatten eng cell) (layer, 0) of None \<Rightarrow> [] | Some ps \<Rightarrow> ps) = []"
  shows "fst (render_gds_to_photomask eng p lib uuid_hex cell_name layer W_px H_px sw sh
                diam off) = Inl (NoGeometry layer)"
  using assms by (simp add: render_gds_to_photomask_def gds_two_circles_def Let_def)

lemma test_lib_top:
  "test_lib ''TOP'' = Some [((1, 0), [[(0, 0), (3000, 0), (3000, 3000)]])]"
  by (simp add: test_lib_def)

lemma test_layer_2:
  "(case get_polygons test_engine
           (flatten test_engine [((1, 0), [[(0, 0), (3000, 0), (3000, 3000)]])]) (2, 0) of
      None \<Rightarrow> [] | Some ps \<Rightarrow> ps) = []"
  by (simp add: test_engine_def)

text \<open>The test library has a triangle on layer 1 only; layer 2 is refused.\<close>

theorem empty_layer_fails_witness:
  "test_lib ''TOP'' = Some [((1, 0), [[(0, 0), (3000, 0), (3000, 3000)]])] \<and>
   (case get_polygons test_engine
           (flatten test_engine [((1, 0), [[(0, 0), (3000, 0), (3000, 3000)]])]) (2, 0) of
      None \<Rightarrow> [] | Some ps \<Rightarrow> ps) = [] \<and>
   fst (render_gds_to_photomask test_engine test_pil test_lib ''ab12'' ''TOP'' 2 8 4 8 4 4 2)
     = Inl (NoGeometry 2)"
  using empty_layer_fails [where lib = test_lib and cell_name = "''TOP''"
      and cell = "[((1, 0), [[(0, 0), (3000, 0), (3000, 3000)]])]" and eng = test_engine
      and layer = 2 and p = test_pil and uuid_hex = "''ab12''" and W_px = 8 and H_px = 4
      and sw = 8 and sh = 4 and diam = 4 and off = 2]
    test_lib_top test_layer_2
  by blast


text \<open>
  On the paths that the source handles, the cell is removed: after a successful render
  and after the "no geometry" and "empty cell" errors the library has no entry under the
  temporary name.
\<close>

lemma Image_new_error: "Image_new w h c = Inl e \<Longrightarrow> e = ValueError"
  by (auto simp: Image_new_def split: if_splits)

lemma paste_mask_error: "paste_mask dst src box msk = Inl e \<Longrightarrow> e = ValueError"
  by (auto simp: paste_mask_def split: if_splits)

lemma ellipse_mask_error: "ellipse_mask ell w h = Inl e \<Longrightarrow> e = ValueError"
  by (auto simp: ellipse_mask_def split: sum.splits dest: Image_new_error)

lemma circle_center_x_error:
  "circle_center_x base ppx pos off = Inl e \<Longrightarrow> e = ZeroDivisionError"
  by (auto simp: circle_center_x_def split: if_splits)

lemma paste_circle_error:
  "paste_circle p base img rx ry ppx ppy pos off iv = Inl e \<Longrightarrow>
     e = ZeroDivisionError \<or> e = ValueError"
  by (auto simp: paste_circle_def Let_def split: sum.splits
           dest: circle_center_x_error ellipse_mask_error paste_mask_error)

lemma Image_new_not_geometry:
  "Image_new w h c \<noteq> Inl (NoGeometry l)" "Image_new w h c \<noteq> Inl EmptyCell"
  "Inl (NoGeometry l) \<noteq> Image_new w h c" "Inl EmptyCell \<noteq> Image_new w h c"
  by (auto simp: Image_new_def)

lemma paste_circle_not_geometry:
  "paste_circle p base img rx ry ppx ppy pos off iv \<noteq> Inl (NoGeometry l)"
  "paste_circle p base img rx ry ppx ppy pos off iv \<noteq> Inl EmptyCell"
  "Inl (NoGeometry l) \<noteq> paste_circle p base img rx ry ppx ppy pos off iv"
  "Inl EmptyCell \<noteq> paste_circle p base img rx ry ppx ppy pos off iv"
  using paste_circle_error [of p base img rx ry ppx ppy pos off iv "NoGeometry l"]
    paste_circle_error [of p base img rx ry ppx ppy pos off iv EmptyCell]
  by (auto dest: sym)

lemma gds_two_circles_library:
  assumes "gds_two_circles eng p lib uuid_hex cell_name layer W_px H_px sw sh diam off
             = (res, lib')"
    and "res = Inl (NoGeometry l) \<or> res = Inl EmptyCell"
  shows "lib' (temp_cell_name uuid_hex) = None"
  using assms
  by (auto simp: gds_two_circles_def Let_def Image_new_not_geometry paste_circle_not_geometry
           split: sum.splits option.splits if_splits)

lemma temp_cell_removed_on_handled_exits:
  assumes "render_gds_to_photomask eng p lib uuid_hex cell_name layer W_px H_px sw sh
             diam off = (res, lib')"
    and "(\<exists>out. res = Inr out) \<or> res = Inl (NoGeometry l) \<or> res = Inl EmptyCell"
  shows "lib' (temp_cell_name uuid_hex) = None"
proof (cases "gds_two_circles eng p lib uuid_hex cell_name layer W_px H_px sw sh diam off")
  case (Pair r lib1)
  show ?thesis
  proof (cases r)
    case (Inl e)
    with Pair assms(1) have "res = Inl e" "lib' = lib1"
      by (simp_all add: render_gds_to_photomask_def)
    with assms(2) gds_two_circles_library [OF Pair, of l] Inl show ?thesis
      by auto
  next
    case (Inr base)
    with Pair assms(1) show ?thesis
      by (auto simp: render_gds_to_photomask_def)
  qed
qed

section \<open>Dual-circle tools: the two polarities\<close>

text \<open>
  The bitmap tool places the same thresholded source twice: unchanged on the
  left, inverted on the right. The inversion happens before the centre crop
  and the Lanczos resize; the crop commutes with it, and the resize does so
  exactly when the resampling filter does, which is a property of the imaging
  library and not of this program.
\<close>

lemma size_invert: "width (invert img) = width img \<and> height (invert img) = height img"
  by (simp add: invert_def)

lemma center_square_invert: "center_square (invert img) = invert (center_square img)"
  by (simp add: center_square_def crop_def invert_def Let_def take_map drop_map)

lemma place_in_circle_right_source:
  "place_in_circle p base img c rx ry thr True =
     place_in_circle p base
       (invert (case thr of None \<Rightarrow> img | Some t \<Rightarrow> point_threshold t img)) c rx ry None False"
  by (simp add: place_in_circle_def Let_def)

lemma resize_invert:
  assumes "\<And>src w h x y. rs (invert src) w h x y = 255 - rs src w h x y"
  shows "resize rs (invert img) w h = map_sum id invert (resize rs img w h)"
  using assms by (simp add: resize_def size_invert) (simp add: invert_def o_def)

end
